theory Spec2Isabelle
  imports Main "HOL-Library.Word" "HOL-Library.AList" "HOL-Library.Char_ord"
    "HOL-Library.List_Lexorder"
begin

section \<open>Data model of the request pipeline (base.go)\<close>

text \<open>
  A Go byte slice and a Go string are both lists of bytes; the nil slice is the empty list.
\<close>

type_synonym bytes = string

text \<open>
  Go error values. The constructor records which library produced the error and carries the
  text that the method \<open>Error()\<close> returns. \<open>ErrorString\<close> is the value built by
  \<open>fmt.Errorf\<close> when the format wraps no error. \<open>NilDereference\<close> stands for the
  run-time panic of reading through a nil pointer; the lemmas \<open>DoGetResponse_some\<close> and
  \<open>DoPost_some\<close> below show that no call reaches it.
\<close>

datatype error =
    ErrorString string
  | UrlError string
  | ClientError string
  | ReadError string
  | JsonError string
  | FormError string
  | NilDereference

fun Error :: "error \<Rightarrow> string" where
  "Error (ErrorString s) = s"
| "Error (UrlError s) = s"
| "Error (ClientError s) = s"
| "Error (ReadError s) = s"
| "Error (JsonError s) = s"
| "Error (FormError s) = s"
| "Error NilDereference = ''runtime error: invalid memory address or nil pointer dereference''"

text \<open>
  A value of type \<open>interface{}\<close> as \<open>json.Unmarshal\<close> stores it: nil, bool, float64
  (its 64 bits), string, \<open>[]interface{}\<close> or \<open>map[string]interface{}\<close> (a Go map).
\<close>

datatype any =
    JNil
  | JBool bool
  | JFloat64 "64 word"
  | JString string
  | JSlice "any list"
  | JMap "(string \<times> any) list"

record Response =
  Status :: string
  Msg :: string
  Data :: any
  Data2 :: any

text \<open>
  A Go map with string keys is an association list: the keys are distinct and the order
  carries no meaning (\<open>map_of\<close> looks a key up, \<open>AList.update\<close> assigns to one).

  The body handed to \<open>http.NewRequest\<close>: the bytes of a \<open>bytes.Reader\<close>, or one of the
  two forms built by \<open>createFormFile\<close> and \<open>createForm\<close>, with their fields.
\<close>

datatype body =
    Bytes bytes
  | MultipartForm "(string \<times> bytes) list"
  | UrlencodedForm "(string \<times> string) list"

record Request =
  Method :: string
  URL :: string
  BasicAuth :: "(string \<times> string) option"
  ContentType :: "string option"
  Body :: "body option"

text \<open>
  The three entities. base.go reads and writes \<open>Owner\<close> and \<open>Name\<close> only; every other
  field of the Go structs lives in the extension part of the record.
\<close>

record User =
  Owner :: string
  Name :: string

record Permission =
  Owner :: string
  Name :: string

record Role =
  Owner :: string
  Name :: string

text \<open>
  Modelled from the spec: the type of the process-wide configuration \<open>authConfig\<close> is
  declared in a file of the package that is not among the sources. The spec lists "endpoint
  base URL, client id, client secret, organization name, application name, certificate";
  base.go reads \<open>ClientId\<close>, \<open>ClientSecret\<close> and \<open>OrganizationName\<close>.
\<close>

record AuthConfig =
  Endpoint :: string
  ClientId :: string
  ClientSecret :: string
  Certificate :: string
  OrganizationName :: string
  ApplicationName :: string

text \<open>
  Everything a call depends on besides its arguments: the two package variables
  (\<open>authConfig\<close> and \<open>client\<close>), the functions of this package that base.go calls but does
  not define (\<open>GetUrl\<close>, \<open>User.GetId\<close>), and the standard library
  (\<open>url.Parse\<close> inside \<open>http.NewRequest\<close>, \<open>json.Unmarshal\<close> at the two target types,
  \<open>json.Marshal\<close> at the four argument types). Every theorem below holds for each value of
  these parameters.

  \<open>client_Do\<close> is \<open>client.Do\<close> followed by \<open>ioutil.ReadAll\<close> on the body of the
  response: \<open>Inl\<close> is the error of \<open>Do\<close>, \<open>Inr (Inl e)\<close> the error of reading the body,
  \<open>Inr (Inr bs)\<close> the bytes read. One call of the pipeline sends at most one request, so a
  client with state of its own is covered.
\<close>

record ('u, 'p, 'r) env =
  authConfig :: AuthConfig
  client_Do :: "Request \<Rightarrow> error + (error + bytes)"
  url_Parse :: "string \<Rightarrow> error option"
  GetUrl :: "string \<Rightarrow> (string \<times> string) list \<Rightarrow> string"
  User_GetId :: "'u User_scheme \<Rightarrow> string"
  json_Unmarshal_Response :: "bytes \<Rightarrow> error + Response"
  json_Unmarshal_params :: "bytes \<Rightarrow> error + (string \<times> string) list"
  json_Marshal :: "any \<Rightarrow> error + bytes"
  json_Marshal_User :: "'u User_scheme \<Rightarrow> error + bytes"
  json_Marshal_Permission :: "'p Permission_scheme \<Rightarrow> error + bytes"
  json_Marshal_Role :: "'r Role_scheme \<Rightarrow> error + bytes"

section \<open>The standard library functions whose result the claims depend on\<close>

subsection \<open>strings.Join\<close>

definition Join :: "string list \<Rightarrow> string \<Rightarrow> string" where
  "Join elems sep =
     (case elems of
        [] \<Rightarrow> []
      | [e] \<Rightarrow> e
      | e # es \<Rightarrow> e @ concat (map (\<lambda>s. sep @ s) es))"

subsection \<open>fmt.Sprintf with the format "%s/%s" and two strings\<close>

definition Sprintf_s_slash_s :: "string \<Rightarrow> string \<Rightarrow> string" where
  "Sprintf_s_slash_s a b = a @ ''/'' @ b"

subsection \<open>unicode/utf8: decoding and encoding one rune\<close>

definition RuneError :: nat where
  "RuneError = 0xFFFD"

definition continuation :: "char \<Rightarrow> bool" where
  "continuation c = (0x80 \<le> (of_char c :: nat) \<and> (of_char c :: nat) \<le> 0xBF)"

text \<open>
  The table \<open>first\<close> of utf8.go, as the size of the encoding that a first byte announces
  and the range accepted for the second byte; \<open>None\<close> for a byte that starts no encoding.
\<close>

definition first :: "nat \<Rightarrow> (nat \<times> nat \<times> nat) option" where
  "first s0 =
     (if 0xC2 \<le> s0 \<and> s0 \<le> 0xDF then Some (2, 0x80, 0xBF)
      else if s0 = 0xE0 then Some (3, 0xA0, 0xBF)
      else if 0xE1 \<le> s0 \<and> s0 \<le> 0xEC then Some (3, 0x80, 0xBF)
      else if s0 = 0xED then Some (3, 0x80, 0x9F)
      else if 0xEE \<le> s0 \<and> s0 \<le> 0xEF then Some (3, 0x80, 0xBF)
      else if s0 = 0xF0 then Some (4, 0x90, 0xBF)
      else if 0xF1 \<le> s0 \<and> s0 \<le> 0xF3 then Some (4, 0x80, 0xBF)
      else if s0 = 0xF4 then Some (4, 0x80, 0x8F)
      else None)"

definition DecodeRuneInString :: "string \<Rightarrow> nat \<times> nat" where
  "DecodeRuneInString s =
     (case s of
        [] \<Rightarrow> (RuneError, 0)
      | c0 # _ \<Rightarrow>
          (let s0 = (of_char c0 :: nat) in
           if s0 < 0x80 then (s0, 1)
           else case first s0 of
             None \<Rightarrow> (RuneError, 1)
           | Some (sz, lo, hi) \<Rightarrow>
               if length s < sz then (RuneError, 1)
               else let s1 = (of_char (s ! 1) :: nat) in
                 if s1 < lo \<or> hi < s1 then (RuneError, 1)
                 else if sz \<le> 2 then ((s0 mod 32) * 64 + s1 mod 64, 2)
                 else let s2 = (of_char (s ! 2) :: nat) in
                   if \<not> continuation (s ! 2) then (RuneError, 1)
                   else if sz \<le> 3 then ((s0 mod 16) * 4096 + (s1 mod 64) * 64 + s2 mod 64, 3)
                   else let s3 = (of_char (s ! 3) :: nat) in
                     if \<not> continuation (s ! 3) then (RuneError, 1)
                     else ((s0 mod 8) * 262144 + (s1 mod 64) * 4096 + (s2 mod 64) * 64
                             + s3 mod 64, 4)))"

definition AppendRune :: "string \<Rightarrow> nat \<Rightarrow> string" where
  "AppendRune p r =
     (if r \<le> 0x7F then p @ [char_of r]
      else if r \<le> 0x7FF then p @ [char_of (0xC0 + r div 64), char_of (0x80 + r mod 64)]
      else if r > 0x10FFFF \<or> (0xD800 \<le> r \<and> r \<le> 0xDFFF) then
        p @ [char_of (0xEF :: nat), char_of (0xBF :: nat), char_of (0xBD :: nat)]
      else if r \<le> 0xFFFF then
        p @ [char_of (0xE0 + r div 4096), char_of (0x80 + (r div 64) mod 64),
             char_of (0x80 + r mod 64)]
      else
        p @ [char_of (0xF0 + r div 262144), char_of (0x80 + (r div 4096) mod 64),
             char_of (0x80 + (r div 64) mod 64), char_of (0x80 + r mod 64)])"

subsection \<open>fmt.Errorf called with a format and no operand\<close>

text \<open>
  base.go calls \<open>fmt.Errorf(response.Msg)\<close>: the message is the format and the operand
  list is empty. The definitions follow \<open>doPrintf\<close> of fmt/print.go with \<open>len(a) = 0\<close>:
  no argument index is ever in range, \<open>intFromArg\<close> never finds an integer, and every verb
  but \<open>%\<close> has no operand left. The flags, width and precision only move the index, since
  nothing is printed with them.
\<close>

definition tooLarge :: "int \<Rightarrow> bool" where
  "tooLarge x = (x > 1000000 \<or> x < - 1000000)"

definition isDigit :: "char \<Rightarrow> bool" where
  "isDigit c = (0x30 \<le> (of_char c :: nat) \<and> (of_char c :: nat) \<le> 0x39)"

fun parsenum_loop :: "string \<Rightarrow> int \<Rightarrow> bool \<Rightarrow> nat \<Rightarrow> nat \<Rightarrow> int \<times> bool \<times> nat" where
  "parsenum_loop [] num isnum newi end = (num, isnum, newi)"
| "parsenum_loop (c # cs) num isnum newi end =
     (if isDigit c then
        (if tooLarge num then (0, False, end)
         else parsenum_loop cs (num * 10 + (of_char c - 0x30)) True (Suc newi) end)
      else (num, isnum, newi))"

definition parsenum :: "string \<Rightarrow> nat \<Rightarrow> nat \<Rightarrow> int \<times> bool \<times> nat" where
  "parsenum s start end =
     (if start \<ge> end then (0, False, end)
      else parsenum_loop (take (end - start) (drop start s)) 0 False start end)"

text \<open>The index of the first closing bracket at position 1 or later.\<close>

fun closing :: "string \<Rightarrow> nat \<Rightarrow> nat option" where
  "closing [] i = None"
| "closing (c # cs) i = (if c = CHR '']'' then Some i else closing cs (Suc i))"

definition parseArgNumber :: "string \<Rightarrow> int \<times> nat \<times> bool" where
  "parseArgNumber format =
     (if length format < 3 then (0, 1, False)
      else case closing (tl format) 1 of
        None \<Rightarrow> (0, 1, False)
      | Some i \<Rightarrow>
          (case parsenum format 1 i of
             (width, ok, newi) \<Rightarrow>
               if \<not> ok \<or> newi \<noteq> i then (0, i + 1, False)
               else (width - 1, i + 1, True)))"

text \<open>
  \<open>argNumber\<close> with \<open>numArgs = 0\<close>: it returns the new index, whether a bracketed index
  was found, and the new value of \<open>p.goodArgNum\<close>.
\<close>

definition argNumber :: "bool \<Rightarrow> string \<Rightarrow> nat \<Rightarrow> nat \<times> bool \<times> bool" where
  "argNumber goodArgNum format i =
     (if length format \<le> i \<or> format ! i \<noteq> CHR ''['' then (i, False, goodArgNum)
      else case parseArgNumber (drop i format) of
        (index, wid, ok) \<Rightarrow>
          if ok \<and> 0 \<le> index \<and> index < 0 then (i + wid, True, goodArgNum)
          else (i + wid, ok, False))"

definition isFlag :: "char \<Rightarrow> bool" where
  "isFlag c = (c = CHR ''#'' \<or> c = CHR ''0'' \<or> c = CHR ''+'' \<or> c = CHR ''-'' \<or> c = CHR '' '')"

definition badWidthString :: string where "badWidthString = ''%!(BADWIDTH)''"
definition badPrecString :: string where "badPrecString = ''%!(BADPREC)''"
definition noVerbString :: string where "noVerbString = ''%!(NOVERB)''"
definition percentBangString :: string where "percentBangString = ''%!''"
definition missingString :: string where "missingString = ''(MISSING)''"
definition badIndexString :: string where "badIndexString = ''(BADINDEX)''"

text \<open>
  One pass of the loop body of \<open>doPrintf\<close> after a percent sign: \<open>format\<close> is the text that
  follows the percent sign. The result is the text written to the buffer and the index
  reached; at a missing verb the loop breaks, which the index \<open>length format\<close> stands for.
\<close>

definition printVerb :: "string \<Rightarrow> string \<times> nat" where
  "printVerb format =
     (let end = length format;
          i = length (takeWhile isFlag format);
          (i, afterIndex, goodArgNum) = argNumber True format i;
          (buf, i, afterIndex, goodArgNum) =
            (if i < end \<and> format ! i = CHR ''*'' then (badWidthString, i + 1, False, goodArgNum)
             else case parsenum format i end of
               (wid, widPresent, i) \<Rightarrow>
                 ([], i, afterIndex, if afterIndex \<and> widPresent then False else goodArgNum));
          (buf, i, afterIndex, goodArgNum) =
            (if i + 1 < end \<and> format ! i = CHR ''.'' then
               (case argNumber (if afterIndex then False else goodArgNum) format (i + 1) of
                  (i, afterIndex, goodArgNum) \<Rightarrow>
                    if i < end \<and> format ! i = CHR ''*'' then
                      (buf @ badPrecString, i + 1, False, goodArgNum)
                    else case parsenum format i end of
                      (prec, precPresent, i) \<Rightarrow> (buf, i, afterIndex, goodArgNum))
             else (buf, i, afterIndex, goodArgNum));
          (i, afterIndex, goodArgNum) =
            (if \<not> afterIndex then argNumber goodArgNum format i
             else (i, afterIndex, goodArgNum))
      in if i \<ge> end then (buf @ noVerbString, end)
         else
           let (verb, size) =
                 (if (of_char (format ! i) :: nat) \<ge> 0x80 then DecodeRuneInString (drop i format)
                  else (of_char (format ! i), 1));
               i = i + size
           in if verb = of_char (CHR ''%'') then (buf @ ''%'', i)
              else if \<not> goodArgNum then
                (AppendRune (buf @ percentBangString) verb @ badIndexString, i)
              else (AppendRune (buf @ percentBangString) verb @ missingString, i))"

function doPrintf :: "string \<Rightarrow> string" where
  "doPrintf [] = []"
| "doPrintf (c # cs) =
     (if c \<noteq> CHR ''%'' then c # doPrintf cs
      else case printVerb cs of (buf, i) \<Rightarrow> buf @ doPrintf (drop i cs))"
  by pat_completeness auto
termination
  by (relation "measure length") auto

definition Errorf :: "string \<Rightarrow> error" where
  "Errorf format = ErrorString (doPrintf format)"

section \<open>The request pipeline\<close>

subsection \<open>Building a request\<close>

text \<open>
  \<open>http.NewRequest\<close> fails when \<open>url.Parse\<close> rejects the URL (the two methods used here,
  GET and POST, are valid); otherwise the request has no header yet.
\<close>

definition NewRequest :: "('u, 'p, 'r) env \<Rightarrow> string \<Rightarrow> string \<Rightarrow> body option \<Rightarrow> error + Request" where
  "NewRequest env method url body =
     (case url_Parse env url of
        Some err \<Rightarrow> Inl err
      | None \<Rightarrow>
          Inr \<lparr>Method = method, URL = url, BasicAuth = None, ContentType = None, Body = body\<rparr>)"

definition SetBasicAuth :: "Request \<Rightarrow> string \<Rightarrow> string \<Rightarrow> Request" where
  "SetBasicAuth req username password = req\<lparr>BasicAuth := Some (username, password)\<rparr>"

definition Header_Set_Content_Type :: "Request \<Rightarrow> string \<Rightarrow> Request" where
  "Header_Set_Content_Type req contentType = req\<lparr>ContentType := Some contentType\<rparr>"

text \<open>
  Modelled from the spec: \<open>createFormFile\<close> and \<open>createForm\<close> are called by \<open>DoPost\<close>
  and defined in a file of the package that is not among the sources. The spec says of
  \<open>DoPost\<close>: "if isForm and isFile, encodes body-bytes as a single-file multipart form; if
  isForm and not isFile, decodes body-bytes as a flat string-keyed map and encodes as
  application/x-www-form-urlencoded", the wire contract names the content types
  "multipart/form-data (single field file)" and "application/x-www-form-urlencoded", and no
  failure of the encoding is described. The multipart form has one part for each entry of
  the map it is given.
\<close>

definition createFormFile :: "(string \<times> bytes) list \<Rightarrow> string \<times> body \<times> error option" where
  "createFormFile formData = (''multipart/form-data'', MultipartForm formData, None)"

definition createForm :: "(string \<times> string) list \<Rightarrow> string \<times> body \<times> error option" where
  "createForm formData = (''application/x-www-form-urlencoded'', UrlencodedForm formData, None)"

subsection \<open>The functions of base.go\<close>

text \<open>
  Each function returns, before the results of the Go function, the list of the requests
  that it handed to \<open>client.Do\<close>. A pointer result is an option (\<open>None\<close> for nil), an
  error result an option (\<open>None\<close> for nil), and the results of a Go function stay a tuple,
  so that a nil envelope together with a nil error is a value of the model.
\<close>

definition DoGetBytesRaw :: "('u, 'p, 'r) env \<Rightarrow> string \<Rightarrow> Request list \<times> bytes \<times> error option" where
  "DoGetBytesRaw env url =
     (case NewRequest env ''GET'' url None of
        Inl err \<Rightarrow> ([], [], Some err)
      | Inr req0 \<Rightarrow>
          (let req = SetBasicAuth req0 (ClientId (authConfig env)) (ClientSecret (authConfig env))
           in case client_Do env req of
                Inl err \<Rightarrow> ([req], [], Some err)
              | Inr (Inl err) \<Rightarrow> ([req], [], Some err)
              | Inr (Inr respBytes) \<Rightarrow> ([req], respBytes, None)))"

definition DoGetResponse :: "('u, 'p, 'r) env \<Rightarrow> string \<Rightarrow> Request list \<times> Response option \<times> error option" where
  "DoGetResponse env url =
     (case DoGetBytesRaw env url of
        (sent, respBytes, Some err) \<Rightarrow> (sent, None, Some err)
      | (sent, respBytes, None) \<Rightarrow>
          (case json_Unmarshal_Response env respBytes of
             Inl err \<Rightarrow> (sent, None, Some err)
           | Inr response \<Rightarrow>
               if Status response \<noteq> ''ok'' then (sent, None, Some (Errorf (Msg response)))
               else (sent, Some response, None)))"

definition DoGetBytes :: "('u, 'p, 'r) env \<Rightarrow> string \<Rightarrow> Request list \<times> bytes \<times> error option" where
  "DoGetBytes env url =
     (case DoGetResponse env url of
        (sent, response, Some err) \<Rightarrow> (sent, [], Some err)
      | (sent, None, None) \<Rightarrow> (sent, [], Some NilDereference)
      | (sent, Some response, None) \<Rightarrow>
          (case json_Marshal env (Data response) of
             Inl err \<Rightarrow> (sent, [], Some err)
           | Inr res \<Rightarrow> (sent, res, None)))"

definition DoPostBytesRaw :: "('u, 'p, 'r) env \<Rightarrow> string \<Rightarrow> string \<Rightarrow> body \<Rightarrow> Request list \<times> bytes \<times> error option" where
  "DoPostBytesRaw env url contentType0 body =
     (let contentType = (if contentType0 = [] then ''text/plain;charset=UTF-8'' else contentType0)
      in case NewRequest env ''POST'' url (Some body) of
           Inl err \<Rightarrow> ([], [], Some err)
         | Inr req0 \<Rightarrow>
             (let req1 = SetBasicAuth req0 (ClientId (authConfig env)) (ClientSecret (authConfig env));
                  req = Header_Set_Content_Type req1 contentType
              in case client_Do env req of
                   Inl err \<Rightarrow> ([req], [], Some err)
                 | Inr (Inl err) \<Rightarrow> ([req], [], Some err)
                 | Inr (Inr respByte) \<Rightarrow> ([req], respByte, None)))"

text \<open>The part of \<open>DoPost\<close> that chooses the content type and the body.\<close>

definition DoPost_encode :: "('u, 'p, 'r) env \<Rightarrow> bytes \<Rightarrow> bool \<Rightarrow> bool \<Rightarrow> string \<times> body \<times> error option" where
  "DoPost_encode env postBytes isForm isFile =
     (if isForm then
        (if isFile then createFormFile [(''file'', postBytes)]
         else case json_Unmarshal_params env postBytes of
                Inl err \<Rightarrow> ([], Bytes [], Some err)
              | Inr params \<Rightarrow> createForm params)
      else (''text/plain;charset=UTF-8'', Bytes postBytes, None))"

definition DoPost :: "('u, 'p, 'r) env \<Rightarrow> string \<Rightarrow> (string \<times> string) list \<Rightarrow> bytes \<Rightarrow> bool \<Rightarrow> bool \<Rightarrow> Request list \<times> Response option \<times> error option" where
  "DoPost env action queryMap postBytes isForm isFile =
     (let url = GetUrl env action queryMap
      in case DoPost_encode env postBytes isForm isFile of
           (contentType, body, Some err) \<Rightarrow> ([], None, Some err)
         | (contentType, body, None) \<Rightarrow>
             (case DoPostBytesRaw env url contentType body of
                (sent, respBytes, Some err) \<Rightarrow> (sent, None, Some err)
              | (sent, respBytes, None) \<Rightarrow>
                  (case json_Unmarshal_Response env respBytes of
                     Inl err \<Rightarrow> (sent, None, Some err)
                   | Inr response \<Rightarrow>
                       if Status response \<noteq> ''ok'' then
                         (sent, None, Some (Errorf (Msg response)))
                       else (sent, Some response, None))))"

text \<open>
  The three mutate helpers take a pointer to the entity and assign to its \<open>Owner\<close>. The
  model takes the entity the pointer refers to (a nil pointer is outside the model) and
  returns, first, the entity as the caller finds it after the call. \<open>queryMap_of\<close> is
  the block that builds \<open>queryMap\<close>, the same lines in the three helpers.
\<close>

definition queryMap_of :: "string \<Rightarrow> string list \<Rightarrow> (string \<times> string) list" where
  "queryMap_of id' columns =
     (let queryMap = [(''id'', id')]
      in if length columns \<noteq> 0 then AList.update ''columns'' (Join columns '','') queryMap
         else queryMap)"

definition modifyUserById :: "('u, 'p, 'r) env \<Rightarrow> string \<Rightarrow> string \<Rightarrow> 'u User_scheme \<Rightarrow> string list \<Rightarrow> 'u User_scheme \<times> Request list \<times> Response option \<times> bool \<times> error option" where
  "modifyUserById env action id' user0 columns =
     (let queryMap = queryMap_of id' columns;
          user = user0\<lparr>User.Owner := OrganizationName (authConfig env)\<rparr>
      in case json_Marshal_User env user of
           Inl err \<Rightarrow> (user, [], None, False, Some err)
         | Inr postBytes \<Rightarrow>
             (case DoPost env action queryMap postBytes False False of
                (sent, resp, Some err) \<Rightarrow> (user, sent, None, False, Some err)
              | (sent, None, None) \<Rightarrow> (user, sent, None, False, Some NilDereference)
              | (sent, Some resp, None) \<Rightarrow>
                  (user, sent, Some resp, Data resp = JString ''Affected'', None)))"

definition modifyUser :: "('u, 'p, 'r) env \<Rightarrow> string \<Rightarrow> 'u User_scheme \<Rightarrow> string list \<Rightarrow> 'u User_scheme \<times> Request list \<times> Response option \<times> bool \<times> error option" where
  "modifyUser env action user columns = modifyUserById env action (User_GetId env user) user columns"

definition modifyPermission :: "('u, 'p, 'r) env \<Rightarrow> string \<Rightarrow> 'p Permission_scheme \<Rightarrow> string list \<Rightarrow> 'p Permission_scheme \<times> Request list \<times> Response option \<times> bool \<times> error option" where
  "modifyPermission env action permission0 columns =
     (let queryMap =
            queryMap_of (Sprintf_s_slash_s (Permission.Owner permission0) (Permission.Name permission0))
              columns;
          permission = permission0\<lparr>Permission.Owner := OrganizationName (authConfig env)\<rparr>
      in case json_Marshal_Permission env permission of
           Inl err \<Rightarrow> (permission, [], None, False, Some err)
         | Inr postBytes \<Rightarrow>
             (case DoPost env action queryMap postBytes False False of
                (sent, resp, Some err) \<Rightarrow> (permission, sent, None, False, Some err)
              | (sent, None, None) \<Rightarrow> (permission, sent, None, False, Some NilDereference)
              | (sent, Some resp, None) \<Rightarrow>
                  (permission, sent, Some resp, Data resp = JString ''Affected'', None)))"

definition modifyRole :: "('u, 'p, 'r) env \<Rightarrow> string \<Rightarrow> 'r Role_scheme \<Rightarrow> string list \<Rightarrow> 'r Role_scheme \<times> Request list \<times> Response option \<times> bool \<times> error option" where
  "modifyRole env action role0 columns =
     (let queryMap =
            queryMap_of (Sprintf_s_slash_s (Role.Owner role0) (Role.Name role0)) columns;
          role = role0\<lparr>Role.Owner := OrganizationName (authConfig env)\<rparr>
      in case json_Marshal_Role env role of
           Inl err \<Rightarrow> (role, [], None, False, Some err)
         | Inr postBytes \<Rightarrow>
             (case DoPost env action queryMap postBytes False False of
                (sent, resp, Some err) \<Rightarrow> (role, sent, None, False, Some err)
              | (sent, None, None) \<Rightarrow> (role, sent, None, False, Some NilDereference)
              | (sent, Some resp, None) \<Rightarrow>
                  (role, sent, Some resp, Data resp = JString ''Affected'', None)))"


section \<open>A sample environment\<close>

text \<open>
  The theorems hold for every environment. The closed instances below need one: a client
  that answers every request with a fixed body, and \<open>encoding/json\<close> on a fragment of
  JSON.
\<close>

subsection \<open>encoding/json on a fragment of JSON\<close>

text \<open>
  The fragment: objects, arrays, \<open>true\<close>, \<open>false\<close>, \<open>null\<close> and string literals
  of printable ASCII characters without a backslash, with white space between the tokens.
  On such a text the functions return what Go returns. Numbers, escape sequences and bytes
  outside printable ASCII are not modelled: a text that contains one gets \<open>None\<close>, as a
  text that is not JSON does, and the functions of the environment turn \<open>None\<close> into an
  error. For a text or a value outside the fragment that need not be what Go does; every
  closed instance below stays inside the fragment.
\<close>

datatype token =
    LBrace | RBrace | LBracket | RBracket | Colon | Comma
  | TString string | TTrue | TFalse | TNull

definition isSpace :: "char \<Rightarrow> bool" where
  "isSpace c = (c = CHR '' '' \<or> c = CHR 0x09 \<or> c = CHR 0x0D \<or> c = CHR 0x0A)"

definition printable :: "char \<Rightarrow> bool" where
  "printable c = (0x20 \<le> (of_char c :: nat) \<and> (of_char c :: nat) \<le> 0x7E)"

text \<open>The number of characters before the closing quote of a string literal.\<close>

fun string_end :: "string \<Rightarrow> nat option" where
  "string_end [] = None"
| "string_end (c # cs) =
     (if c = CHR 0x22 then Some 0
      else if printable c \<and> c \<noteq> CHR 0x5C then map_option Suc (string_end cs)
      else None)"

function lex :: "string \<Rightarrow> token list option" where
  "lex [] = Some []"
| "lex (c # cs) =
     (if isSpace c then lex cs
      else if c = CHR ''{'' then map_option ((#) LBrace) (lex cs)
      else if c = CHR ''}'' then map_option ((#) RBrace) (lex cs)
      else if c = CHR ''['' then map_option ((#) LBracket) (lex cs)
      else if c = CHR '']'' then map_option ((#) RBracket) (lex cs)
      else if c = CHR '':'' then map_option ((#) Colon) (lex cs)
      else if c = CHR '','' then map_option ((#) Comma) (lex cs)
      else if c = CHR 0x22 then
        (case string_end cs of
           None \<Rightarrow> None
         | Some n \<Rightarrow> map_option ((#) (TString (take n cs))) (lex (drop (Suc n) cs)))
      else if c # take 3 cs = ''true'' then map_option ((#) TTrue) (lex (drop 3 cs))
      else if c # take 4 cs = ''false'' then map_option ((#) TFalse) (lex (drop 4 cs))
      else if c # take 3 cs = ''null'' then map_option ((#) TNull) (lex (drop 3 cs))
      else None)"
  by pat_completeness auto
termination
  by (relation "measure length") auto

text \<open>
  The parser reads one value and returns it with the tokens that follow. Its first argument
  bounds the depth of nesting; \<open>parse\<close> starts it above the number of tokens. The members
  of an object are kept in the order of the text, repeated keys included.
\<close>

fun parse_value :: "nat \<Rightarrow> token list \<Rightarrow> (any \<times> token list) option"
  and parse_elements :: "nat \<Rightarrow> token list \<Rightarrow> (any list \<times> token list) option"
  and parse_members :: "nat \<Rightarrow> token list \<Rightarrow> ((string \<times> any) list \<times> token list) option"
where
  "parse_value 0 ts = None"
| "parse_value (Suc n) (TNull # ts) = Some (JNil, ts)"
| "parse_value (Suc n) (TTrue # ts) = Some (JBool True, ts)"
| "parse_value (Suc n) (TFalse # ts) = Some (JBool False, ts)"
| "parse_value (Suc n) (TString s # ts) = Some (JString s, ts)"
| "parse_value (Suc n) (LBracket # RBracket # ts) = Some (JSlice [], ts)"
| "parse_value (Suc n) (LBracket # ts) =
     (case parse_value n ts of
        None \<Rightarrow> None
      | Some (v, ts1) \<Rightarrow>
          (case parse_elements n ts1 of
             None \<Rightarrow> None
           | Some (vs, ts2) \<Rightarrow> Some (JSlice (v # vs), ts2)))"
| "parse_value (Suc n) (LBrace # RBrace # ts) = Some (JMap [], ts)"
| "parse_value (Suc n) (LBrace # TString k # Colon # ts) =
     (case parse_value n ts of
        None \<Rightarrow> None
      | Some (v, ts1) \<Rightarrow>
          (case parse_members n ts1 of
             None \<Rightarrow> None
           | Some (ms, ts2) \<Rightarrow> Some (JMap ((k, v) # ms), ts2)))"
| "parse_value (Suc n) ts = None"
| "parse_elements 0 ts = None"
| "parse_elements (Suc n) (RBracket # ts) = Some ([], ts)"
| "parse_elements (Suc n) (Comma # ts) =
     (case parse_value n ts of
        None \<Rightarrow> None
      | Some (v, ts1) \<Rightarrow>
          (case parse_elements n ts1 of
             None \<Rightarrow> None
           | Some (vs, ts2) \<Rightarrow> Some (v # vs, ts2)))"
| "parse_elements (Suc n) ts = None"
| "parse_members 0 ts = None"
| "parse_members (Suc n) (RBrace # ts) = Some ([], ts)"
| "parse_members (Suc n) (Comma # TString k # Colon # ts) =
     (case parse_value n ts of
        None \<Rightarrow> None
      | Some (v, ts1) \<Rightarrow>
          (case parse_members n ts1 of
             None \<Rightarrow> None
           | Some (ms, ts2) \<Rightarrow> Some ((k, v) # ms, ts2)))"
| "parse_members (Suc n) ts = None"

definition parse :: "bytes \<Rightarrow> any option" where
  "parse data =
     (case lex data of
        None \<Rightarrow> None
      | Some ts \<Rightarrow>
          (case parse_value (Suc (length ts)) ts of
             Some (v, []) \<Rightarrow> Some v
           | _ \<Rightarrow> None))"

text \<open>
  The value stored in an \<open>interface{}\<close>: in a map, the last member with a given key
  wins.
\<close>

fun normalise :: "any \<Rightarrow> any" where
  "normalise JNil = JNil"
| "normalise (JBool b) = JBool b"
| "normalise (JFloat64 f) = JFloat64 f"
| "normalise (JString s) = JString s"
| "normalise (JSlice vs) = JSlice (map normalise vs)"
| "normalise (JMap ms) =
     JMap (foldl (\<lambda>m kv. AList.update (fst kv) (snd kv) m) []
             (map (\<lambda>kv. (fst kv, normalise (snd kv))) ms))"

text \<open>
  Decoding into a \<open>Response\<close>: the members are assigned in the order of the text to the
  field whose name equals the key, letter case ignored; a string field takes a string,
  keeps its value at \<open>null\<close> and records a type error at anything else; other keys are
  skipped.
\<close>

definition toLower :: "char \<Rightarrow> char" where
  "toLower c =
     (if 0x41 \<le> (of_char c :: nat) \<and> (of_char c :: nat) \<le> 0x5A
      then char_of ((of_char c :: nat) + 0x20) else c)"

definition typeError :: error where
  "typeError = JsonError ''json: cannot unmarshal value into Go value''"

definition syntaxError :: error where
  "syntaxError = JsonError ''json: invalid or unsupported text''"

definition setField :: "Response \<times> error option \<Rightarrow> string \<times> any \<Rightarrow> Response \<times> error option" where
  "setField st kv =
     (case st of (r, err) \<Rightarrow>
        let name = map toLower (fst kv); v = snd kv;
            err' = (case err of None \<Rightarrow> Some typeError | Some e \<Rightarrow> Some e)
        in if name = ''status'' then
             (case v of JString s \<Rightarrow> (r\<lparr>Status := s\<rparr>, err) | JNil \<Rightarrow> (r, err) | _ \<Rightarrow> (r, err'))
           else if name = ''msg'' then
             (case v of JString s \<Rightarrow> (r\<lparr>Msg := s\<rparr>, err) | JNil \<Rightarrow> (r, err) | _ \<Rightarrow> (r, err'))
           else if name = ''data'' then (r\<lparr>Data := normalise v\<rparr>, err)
           else if name = ''data2'' then (r\<lparr>Data2 := normalise v\<rparr>, err)
           else (r, err))"

definition Unmarshal_Response :: "bytes \<Rightarrow> error + Response" where
  "Unmarshal_Response data =
     (case parse data of
        None \<Rightarrow> Inl syntaxError
      | Some JNil \<Rightarrow> Inr \<lparr>Status = [], Msg = [], Data = JNil, Data2 = JNil\<rparr>
      | Some (JMap ms) \<Rightarrow>
          (case foldl setField (\<lparr>Status = [], Msg = [], Data = JNil, Data2 = JNil\<rparr>, None) ms of
             (r, None) \<Rightarrow> Inr r
           | (r, Some err) \<Rightarrow> Inl err)
      | Some _ \<Rightarrow> Inl typeError)"

text \<open>Decoding into a \<open>map[string]string\<close>; \<open>null\<close> as a member stores the empty string.\<close>

definition setParam :: "(string \<times> string) list \<times> error option \<Rightarrow> string \<times> any \<Rightarrow> (string \<times> string) list \<times> error option" where
  "setParam st kv =
     (case st of (m, err) \<Rightarrow>
        (case snd kv of
           JString s \<Rightarrow> (AList.update (fst kv) s m, err)
         | JNil \<Rightarrow> (AList.update (fst kv) [] m, err)
         | _ \<Rightarrow> (m, case err of None \<Rightarrow> Some typeError | Some e \<Rightarrow> Some e)))"

definition Unmarshal_params :: "bytes \<Rightarrow> error + (string \<times> string) list" where
  "Unmarshal_params data =
     (case parse data of
        None \<Rightarrow> Inl syntaxError
      | Some JNil \<Rightarrow> Inr []
      | Some (JMap ms) \<Rightarrow>
          (case foldl setParam ([], None) ms of
             (m, None) \<Rightarrow> Inr m
           | (m, Some err) \<Rightarrow> Inl err)
      | Some _ \<Rightarrow> Inl typeError)"

text \<open>
  Encoding: a string is quoted, with the quote and the backslash escaped and, as
  \<open>json.Marshal\<close> escapes for HTML, \<open><\<close>, \<open>>\<close> and \<open>&\<close> written as \<open>\u003c\<close>,
  \<open>\u003e\<close> and \<open>\u0026\<close>; the members of a map are written in the order of their keys;
  nothing is written between the tokens.
\<close>

definition escape :: "char \<Rightarrow> string option" where
  "escape c =
     (if c = CHR 0x22 then Some [CHR 0x5C, CHR 0x22]
      else if c = CHR 0x5C then Some [CHR 0x5C, CHR 0x5C]
      else if c = CHR ''<'' then Some (CHR 0x5C # ''u003c'')
      else if c = CHR ''>'' then Some (CHR 0x5C # ''u003e'')
      else if c = CHR ''&'' then Some (CHR 0x5C # ''u0026'')
      else if printable c then Some [c]
      else None)"

fun those_concat :: "string option list \<Rightarrow> string option" where
  "those_concat [] = Some []"
| "those_concat (None # xs) = None"
| "those_concat (Some x # xs) = map_option ((@) x) (those_concat xs)"

definition encodeString :: "string \<Rightarrow> string option" where
  "encodeString s = map_option (\<lambda>e. CHR 0x22 # e @ [CHR 0x22]) (those_concat (map escape s))"

fun commas :: "string list \<Rightarrow> string" where
  "commas [] = []"
| "commas [x] = x"
| "commas (x # xs) = x @ '','' @ commas xs"

fun encode :: "any \<Rightarrow> string option" where
  "encode JNil = Some ''null''"
| "encode (JBool b) = Some (if b then ''true'' else ''false'')"
| "encode (JFloat64 f) = None"
| "encode (JString s) = encodeString s"
| "encode (JSlice vs) =
     map_option (\<lambda>es. ''['' @ commas es @ '']'') (those (map encode vs))"
| "encode (JMap ms) =
     (if distinct (map fst ms) then
        map_option (\<lambda>es. ''{'' @ commas es @ ''}'')
          (those (map (\<lambda>kv. case (encodeString (fst kv), encode (snd kv)) of
                               (Some k, Some v) \<Rightarrow> Some (k @ '':'' @ v)
                             | _ \<Rightarrow> None)
                      (sort_key fst ms)))
      else None)"

definition Marshal :: "any \<Rightarrow> error + bytes" where
  "Marshal v = (case encode v of None \<Rightarrow> Inl syntaxError | Some res \<Rightarrow> Inr res)"

text \<open>
  The entities of the sample environment have the two fields \<open>Owner\<close> and \<open>Name\<close>,
  with the JSON keys \<open>owner\<close> and \<open>name\<close>.
\<close>

definition Marshal_entity :: "string \<Rightarrow> string \<Rightarrow> error + bytes" where
  "Marshal_entity owner name =
     (case (encodeString owner, encodeString name) of
        (Some ow, Some nm) \<Rightarrow>
          Inr (''{'' @ [CHR 0x22] @ ''owner'' @ [CHR 0x22] @ '':'' @ ow @ '','' @ [CHR 0x22] @ ''name'' @ [CHR 0x22]
               @ '':'' @ nm @ ''}'')
      | _ \<Rightarrow> Inl syntaxError)"

subsection \<open>The environment\<close>

text \<open>
  The sample user has one more field, its identifier, which \<open>GetId\<close> returns (the spec:
  "for users the id is a dedicated identifier field"). The sample \<open>GetUrl\<close> writes
  \<open><base>/<action>?<query>\<close> with the parameters \<open>id\<close> and \<open>columns\<close>, and the sample
  \<open>url.Parse\<close> accepts every URL.
\<close>

record UserWithId = User +
  Id :: string

definition sample_GetUrl :: "string \<Rightarrow> string \<Rightarrow> (string \<times> string) list \<Rightarrow> string" where
  "sample_GetUrl base action queryMap =
     base @ ''/'' @ action @ ''?''
       @ (case map_of queryMap ''id'' of None \<Rightarrow> [] | Some v \<Rightarrow> ''id='' @ v)
       @ (case map_of queryMap ''columns'' of None \<Rightarrow> [] | Some v \<Rightarrow> ''&columns='' @ v)"

definition sample_config :: AuthConfig where
  "sample_config =
     \<lparr>Endpoint = ''http://localhost:8000'', ClientId = ''client-id'',
      ClientSecret = ''client-secret'', Certificate = [], OrganizationName = ''built-in'',
      ApplicationName = ''app''\<rparr>"

definition sample_env :: "(Request \<Rightarrow> error + (error + bytes)) \<Rightarrow> (unit UserWithId_ext, unit, unit) env" where
  "sample_env do =
     \<lparr>authConfig = sample_config,
      client_Do = do,
      url_Parse = (\<lambda>url. None),
      GetUrl = sample_GetUrl (Endpoint sample_config),
      User_GetId = Id,
      json_Unmarshal_Response = Unmarshal_Response,
      json_Unmarshal_params = Unmarshal_params,
      json_Marshal = Marshal,
      json_Marshal_User = (\<lambda>user. Marshal_entity (User.Owner user) (User.Name user)),
      json_Marshal_Permission =
        (\<lambda>permission. Marshal_entity (Permission.Owner permission) (Permission.Name permission)),
      json_Marshal_Role = (\<lambda>role. Marshal_entity (Role.Owner role) (Role.Name role))\<rparr>"

text \<open>A client that answers every request with the given body.\<close>

definition answer :: "bytes \<Rightarrow> Request \<Rightarrow> error + (error + bytes)" where
  "answer respBody req = Inr (Inr respBody)"

text \<open>A client whose every call fails.\<close>

definition unreachable :: "Request \<Rightarrow> error + (error + bytes)" where
  "unreachable req = Inl (ClientError ''connection refused'')"

text \<open>Sample entities.\<close>

definition role_editor :: Role where
  "role_editor = \<lparr>Role.Owner = ''org1'', Name = ''editor''\<rparr>"

definition permission_editor :: Permission where
  "permission_editor = \<lparr>Permission.Owner = ''org1'', Name = ''editor''\<rparr>"

definition user_bob :: UserWithId where
  "user_bob = \<lparr>User.Owner = ''org1'', Name = ''bob'', Id = ''u-17''\<rparr>"

section \<open>Properties\<close>

subsection \<open>Shared lemmas\<close>

lemma DoGetResponse_some:
  "DoGetResponse env url = (sent, resp, err) \<Longrightarrow> (resp = None) = (err \<noteq> None)"
  by (auto simp: DoGetResponse_def split: prod.splits option.splits sum.splits if_splits)

lemma DoPost_some:
  "DoPost env action queryMap postBytes isForm isFile = (sent, resp, err) \<Longrightarrow>
     (resp = None) = (err \<noteq> None)"
  by (auto simp: DoPost_def Let_def split: prod.splits option.splits sum.splits if_splits)

lemma DoGetResponse_sends_at_most_one:
  "length (fst (DoGetResponse env url)) \<le> 1"
  by (simp add: DoGetResponse_def DoGetBytesRaw_def Let_def
      split: prod.splits option.splits sum.splits)

lemma DoPost_sends_at_most_one:
  "length (fst (DoPost env action queryMap postBytes isForm isFile)) \<le> 1"
  by (simp add: DoPost_def DoPostBytesRaw_def Let_def
      split: prod.splits option.splits sum.splits)







lemma Join_Nil: "Join [] sep = []"
  by (simp add: Join_def)

lemma Join_single: "Join [x] sep = x"
  by (simp add: Join_def)

lemma Join_Cons_Cons: "Join (x # y # ys) sep = x @ sep @ Join (y # ys) sep"
  by (cases ys) (simp_all add: Join_def)










lemma doPrintf_no_percent: "CHR ''%'' \<notin> set format \<Longrightarrow> doPrintf format = format"
  by (induction format) auto

lemma DoGetResponse_remote_error:
  assumes "DoGetBytesRaw env url = (sent, respBytes, None)"
    and "json_Unmarshal_Response env respBytes = Inr response"
    and "Status response \<noteq> ''ok''"
  shows "DoGetResponse env url = (sent, None, Some (Errorf (Msg response)))"
  using assms by (simp add: DoGetResponse_def)

lemma DoPost_remote_error:
  assumes "DoPost_encode env postBytes isForm isFile = (contentType, body, None)"
    and "DoPostBytesRaw env (GetUrl env action queryMap) contentType body = (sent, respBytes, None)"
    and "json_Unmarshal_Response env respBytes = Inr response"
    and "Status response \<noteq> ''ok''"
  shows "DoPost env action queryMap postBytes isForm isFile
           = (sent, None, Some (Errorf (Msg response)))"
  using assms by (simp add: DoPost_def Let_def)

subsection \<open>What a mutate helper returns\<close>




text \<open>
  Claim C9. When a mutate helper returns a non-nil error, the envelope it returns is nil
  and the flag \<open>affected\<close> is false; a non-nil envelope comes with a nil error only.
\<close>

theorem error_excludes_envelope:
  "(case modifyUserById env action id' user columns of
      (user', sent, resp, affected, err) \<Rightarrow>
        (err \<noteq> None \<longrightarrow> resp = None \<and> \<not> affected) \<and> (resp \<noteq> None \<longrightarrow> err = None))
   \<and> (case modifyUser env action user columns of
      (user', sent, resp, affected, err) \<Rightarrow>
        (err \<noteq> None \<longrightarrow> resp = None \<and> \<not> affected) \<and> (resp \<noteq> None \<longrightarrow> err = None))
   \<and> (case modifyPermission env action permission columns of
      (permission', sent, resp, affected, err) \<Rightarrow>
        (err \<noteq> None \<longrightarrow> resp = None \<and> \<not> affected) \<and> (resp \<noteq> None \<longrightarrow> err = None))
   \<and> (case modifyRole env action role columns of
      (role', sent, resp, affected, err) \<Rightarrow>
        (err \<noteq> None \<longrightarrow> resp = None \<and> \<not> affected) \<and> (resp \<noteq> None \<longrightarrow> err = None))"
  by (simp add: modifyUser_def modifyUserById_def modifyPermission_def modifyRole_def Let_def
      split: prod.splits option.splits sum.splits)

theorem error_excludes_envelope_witness:
  \<open>snd (snd (modifyUser (sample_env (answer ''{"status":"error","msg":"user not found"}''))
       ''update-user'' user_bob []))
     = (None, False, Some (ErrorString ''user not found''))
   \<and> snd (snd (modifyRole (sample_env (answer ''{"status":"ok","msg":"","data":"Affected"}''))
       ''add-role'' role_editor []))
     = (Some \<lparr>Status = ''ok'', Msg = [], Data = JString ''Affected'', Data2 = JNil\<rparr>, True, None)\<close>
proof -
  have failure:
    \<open>snd (snd (modifyUser (sample_env (answer ''{"status":"error","msg":"user not found"}''))
       ''update-user'' user_bob []))
     = (None, False, Some (ErrorString ''user not found''))\<close>
    by code_simp
  have success:
    \<open>snd (snd (modifyRole (sample_env (answer ''{"status":"ok","msg":"","data":"Affected"}''))
       ''add-role'' role_editor []))
     = (Some \<lparr>Status = ''ok'', Msg = [], Data = JString ''Affected'', Data2 = JNil\<rparr>, True, None)\<close>
    by code_simp
  from error_excludes_envelope
         [where env = \<open>sample_env (answer ''{"status":"error","msg":"user not found"}'')\<close>
            and action = "''update-user''" and user = user_bob and columns = "[]"]
       failure success
  show ?thesis by simp
qed

subsection \<open>The envelope that the pipeline returns\<close>

text \<open>
  Claim C10. Every non-nil envelope that \<open>DoGetResponse\<close> or \<open>DoPost\<close> returns has
  the \<open>Status\<close> "ok".
\<close>

theorem returned_envelope_is_ok:
  "(case DoGetResponse env url of
      (sent, resp, err) \<Rightarrow> \<forall>response. resp = Some response \<longrightarrow> Status response = ''ok'')
   \<and> (case DoPost env action queryMap postBytes isForm isFile of
      (sent, resp, err) \<Rightarrow> \<forall>response. resp = Some response \<longrightarrow> Status response = ''ok'')"
  by (auto simp: DoGetResponse_def DoPost_def Let_def
      split: prod.splits option.splits sum.splits if_splits)

theorem returned_envelope_is_ok_witness:
  \<open>snd (DoGetResponse (sample_env (answer ''{"status":"ok","msg":"","data":["a","b"]}''))
       ''http://localhost:8000/get-users?owner=built-in'')
     = (Some \<lparr>Status = ''ok'', Msg = [], Data = JSlice [JString ''a'', JString ''b''],
              Data2 = JNil\<rparr>, None)
   \<and> snd (DoGetResponse (sample_env (answer ''{"status":"OK","msg":"","data":["a","b"]}''))
       ''http://localhost:8000/get-users?owner=built-in'')
     = (None, Some (ErrorString []))\<close>
proof -
  have ok:
    \<open>snd (DoGetResponse (sample_env (answer ''{"status":"ok","msg":"","data":["a","b"]}''))
       ''http://localhost:8000/get-users?owner=built-in'')
     = (Some \<lparr>Status = ''ok'', Msg = [], Data = JSlice [JString ''a'', JString ''b''],
              Data2 = JNil\<rparr>, None)\<close>
    by code_simp
  have other:
    \<open>snd (DoGetResponse (sample_env (answer ''{"status":"OK","msg":"","data":["a","b"]}''))
       ''http://localhost:8000/get-users?owner=built-in'')
     = (None, Some (ErrorString []))\<close>
    by code_simp
  from returned_envelope_is_ok
         [where env = \<open>sample_env (answer ''{"status":"ok","msg":"","data":["a","b"]}'')\<close>
            and url = "''http://localhost:8000/get-users?owner=built-in''"]
       ok other
  show ?thesis by simp
qed


subsection \<open>What a mutate helper sends and does to the entity\<close>








text \<open>
  Claim C8. After a mutate helper returns, the entity of the caller is the entity on entry
  with its \<open>Owner\<close> replaced by the configured organization name, whatever the outcome of
  the call: the results play no part in it.
\<close>

theorem owner_overwritten_on_every_outcome:
  "fst (modifyUserById env action id' user columns)
     = user\<lparr>User.Owner := OrganizationName (authConfig env)\<rparr>
   \<and> fst (modifyUser env action user columns)
     = user\<lparr>User.Owner := OrganizationName (authConfig env)\<rparr>
   \<and> fst (modifyPermission env action permission columns)
     = permission\<lparr>Permission.Owner := OrganizationName (authConfig env)\<rparr>
   \<and> fst (modifyRole env action role columns)
     = role\<lparr>Role.Owner := OrganizationName (authConfig env)\<rparr>"
  by (simp add: modifyUser_def modifyUserById_def modifyPermission_def modifyRole_def Let_def
      split: prod.splits option.splits sum.splits)

theorem owner_overwritten_on_every_outcome_witness:
  \<open>modifyPermission (sample_env unreachable) ''add-permission'' permission_editor []
     = (\<lparr>Permission.Owner = ''built-in'', Name = ''editor''\<rparr>,
        [\<lparr>Method = ''POST'', URL = ''http://localhost:8000/add-permission?id=org1/editor'',
          BasicAuth = Some (''client-id'', ''client-secret''),
          ContentType = Some ''text/plain;charset=UTF-8'',
          Body = Some (Bytes ''{"owner":"built-in","name":"editor"}'')\<rparr>],
        None, False, Some (ClientError ''connection refused''))
   \<and> modifyUser (sample_env (answer ''{"status":"error","msg":"user not found"}''))
       ''delete-user'' user_bob []
     = (\<lparr>User.Owner = ''built-in'', Name = ''bob'', Id = ''u-17''\<rparr>,
        [\<lparr>Method = ''POST'', URL = ''http://localhost:8000/delete-user?id=u-17'',
          BasicAuth = Some (''client-id'', ''client-secret''),
          ContentType = Some ''text/plain;charset=UTF-8'',
          Body = Some (Bytes ''{"owner":"built-in","name":"bob"}'')\<rparr>],
        None, False, Some (ErrorString ''user not found''))
   \<and> fst (modifyRole (sample_env (answer ''not json'')) ''update-role'' role_editor [])
     = \<lparr>Role.Owner = ''built-in'', Name = ''editor''\<rparr>
   \<and> snd (snd (modifyRole (sample_env (answer ''not json'')) ''update-role'' role_editor []))
     = (None, False, Some syntaxError)\<close>
proof -
  have transport:
    \<open>modifyPermission (sample_env unreachable) ''add-permission'' permission_editor []
     = (\<lparr>Permission.Owner = ''built-in'', Name = ''editor''\<rparr>,
        [\<lparr>Method = ''POST'', URL = ''http://localhost:8000/add-permission?id=org1/editor'',
          BasicAuth = Some (''client-id'', ''client-secret''),
          ContentType = Some ''text/plain;charset=UTF-8'',
          Body = Some (Bytes ''{"owner":"built-in","name":"editor"}'')\<rparr>],
        None, False, Some (ClientError ''connection refused''))\<close>
    by code_simp
  have remote:
    \<open>modifyUser (sample_env (answer ''{"status":"error","msg":"user not found"}''))
       ''delete-user'' user_bob []
     = (\<lparr>User.Owner = ''built-in'', Name = ''bob'', Id = ''u-17''\<rparr>,
        [\<lparr>Method = ''POST'', URL = ''http://localhost:8000/delete-user?id=u-17'',
          BasicAuth = Some (''client-id'', ''client-secret''),
          ContentType = Some ''text/plain;charset=UTF-8'',
          Body = Some (Bytes ''{"owner":"built-in","name":"bob"}'')\<rparr>],
        None, False, Some (ErrorString ''user not found''))\<close>
    by code_simp
  have decode:
    \<open>snd (snd (modifyRole (sample_env (answer ''not json'')) ''update-role'' role_editor []))
     = (None, False, Some syntaxError)\<close>
    by code_simp
  have org: "OrganizationName (authConfig (sample_env (answer ''not json''))) = ''built-in''"
    by (simp add: sample_env_def sample_config_def)
  from owner_overwritten_on_every_outcome
         [where env = "sample_env (answer ''not json'')" and action = "''update-role''"
            and role = role_editor and columns = "[]"]
  have "fst (modifyRole (sample_env (answer ''not json'')) ''update-role'' role_editor [])
     = \<lparr>Role.Owner = ''built-in'', Name = ''editor''\<rparr>"
    by (simp add: org role_editor_def)
  with transport remote decode show ?thesis by simp
qed


subsection \<open>How DoPost encodes the body\<close>

text \<open>
  Claim C7. With \<open>isForm\<close> and \<open>isFile\<close>, the request has a multipart form as its body,
  with the one part \<open>file\<close> that holds the post bytes. With \<open>isForm\<close> and not
  \<open>isFile\<close>, the post bytes are decoded as a map from strings to strings: when that fails,
  nothing is sent and the call returns the error of the decoding; otherwise the body is the
  form of that map, sent as \<open>application/x-www-form-urlencoded\<close>. Without \<open>isForm\<close>,
  the body is the post bytes as they are and the content type is
  \<open>text/plain;charset=UTF-8\<close>.
\<close>

theorem DoPost_body_encoding:
  "(case DoPost env action queryMap postBytes True True of
      (sent, resp, err) \<Rightarrow>
        \<forall>req \<in> set sent.
          ContentType req = Some ''multipart/form-data''
          \<and> Body req = Some (MultipartForm [(''file'', postBytes)]))
   \<and> (case DoPost env action queryMap postBytes True False of
      (sent, resp, err) \<Rightarrow>
        (case json_Unmarshal_params env postBytes of
           Inl decodeErr \<Rightarrow> sent = [] \<and> resp = None \<and> err = Some decodeErr
         | Inr params \<Rightarrow>
             \<forall>req \<in> set sent.
               ContentType req = Some ''application/x-www-form-urlencoded''
               \<and> Body req = Some (UrlencodedForm params)))
   \<and> (case DoPost env action queryMap postBytes False isFile of
      (sent, resp, err) \<Rightarrow>
        \<forall>req \<in> set sent.
          ContentType req = Some ''text/plain;charset=UTF-8''
          \<and> Body req = Some (Bytes postBytes))"
proof -
  have raw: "req \<in> set (fst (DoPostBytesRaw env url contentType body)) \<Longrightarrow>
      ContentType req = Some (if contentType = [] then ''text/plain;charset=UTF-8'' else contentType)
      \<and> Body req = Some body"
    for req url contentType body
    by (auto simp: DoPostBytesRaw_def NewRequest_def SetBasicAuth_def
        Header_Set_Content_Type_def Let_def split: option.splits sum.splits)
  have sent: "fst (DoPost env action queryMap postBytes isForm isFile)
      = (case DoPost_encode env postBytes isForm isFile of
           (contentType, body, Some err) \<Rightarrow> []
         | (contentType, body, None) \<Rightarrow>
             fst (DoPostBytesRaw env (GetUrl env action queryMap) contentType body))"
    for isForm isFile
    by (simp add: DoPost_def Let_def split: prod.splits option.splits sum.splits)
  have multipart: "case DoPost env action queryMap postBytes True True of
      (sent, resp, err) \<Rightarrow>
        \<forall>req \<in> set sent.
          ContentType req = Some ''multipart/form-data''
          \<and> Body req = Some (MultipartForm [(''file'', postBytes)])"
    using sent [of True True] raw
    by (auto simp: DoPost_encode_def createFormFile_def split: prod.splits)
  have form: "case DoPost env action queryMap postBytes True False of
      (sent, resp, err) \<Rightarrow>
        (case json_Unmarshal_params env postBytes of
           Inl decodeErr \<Rightarrow> sent = [] \<and> resp = None \<and> err = Some decodeErr
         | Inr params \<Rightarrow>
             \<forall>req \<in> set sent.
               ContentType req = Some ''application/x-www-form-urlencoded''
               \<and> Body req = Some (UrlencodedForm params))"
  proof (cases "json_Unmarshal_params env postBytes")
    case (Inl decodeErr)
    then show ?thesis
      by (simp add: DoPost_def DoPost_encode_def Let_def)
  next
    case (Inr params)
    then show ?thesis
      using sent [of True False] raw
      by (auto simp: DoPost_encode_def createForm_def split: prod.splits)
  qed
  have plain: "case DoPost env action queryMap postBytes False isFile of
      (sent, resp, err) \<Rightarrow>
        \<forall>req \<in> set sent.
          ContentType req = Some ''text/plain;charset=UTF-8''
          \<and> Body req = Some (Bytes postBytes)"
    using sent [of False isFile] raw
    by (auto simp: DoPost_encode_def split: prod.splits)
  from multipart form plain show ?thesis
    by simp
qed

theorem DoPost_body_encoding_witness:
  \<open>fst (DoPost (sample_env (answer ''{"status":"ok","msg":"","data":"Affected"}''))
       ''upload-resource'' [(''id'', ''built-in/logo.png'')] ''PNG-bytes'' True True)
     = [\<lparr>Method = ''POST'', URL = ''http://localhost:8000/upload-resource?id=built-in/logo.png'',
         BasicAuth = Some (''client-id'', ''client-secret''),
         ContentType = Some ''multipart/form-data'',
         Body = Some (MultipartForm [(''file'', ''PNG-bytes'')])\<rparr>]
   \<and> fst (DoPost (sample_env (answer ''{"status":"ok","msg":"","data":"Affected"}''))
       ''send-email'' [] ''{"title": "hello", "receiver": "bob"}'' True False)
     = [\<lparr>Method = ''POST'', URL = ''http://localhost:8000/send-email?'',
         BasicAuth = Some (''client-id'', ''client-secret''),
         ContentType = Some ''application/x-www-form-urlencoded'',
         Body = Some (UrlencodedForm [(''title'', ''hello''), (''receiver'', ''bob'')])\<rparr>]
   \<and> DoPost (sample_env (answer ''{"status":"ok","msg":"","data":"Affected"}''))
       ''send-email'' [] ''["hello"]'' True False
     = ([], None, Some typeError)
   \<and> fst (DoPost (sample_env (answer ''{"status":"ok","msg":"","data":"Affected"}''))
       ''add-role'' [(''id'', ''org1/editor'')] ''{"owner":"built-in","name":"editor"}'' False False)
     = [\<lparr>Method = ''POST'', URL = ''http://localhost:8000/add-role?id=org1/editor'',
         BasicAuth = Some (''client-id'', ''client-secret''),
         ContentType = Some ''text/plain;charset=UTF-8'',
         Body = Some (Bytes ''{"owner":"built-in","name":"editor"}'')\<rparr>]\<close>
proof -
  have upload:
    \<open>fst (DoPost (sample_env (answer ''{"status":"ok","msg":"","data":"Affected"}''))
       ''upload-resource'' [(''id'', ''built-in/logo.png'')] ''PNG-bytes'' True True)
     = [\<lparr>Method = ''POST'', URL = ''http://localhost:8000/upload-resource?id=built-in/logo.png'',
         BasicAuth = Some (''client-id'', ''client-secret''),
         ContentType = Some ''multipart/form-data'',
         Body = Some (MultipartForm [(''file'', ''PNG-bytes'')])\<rparr>]\<close>
    by code_simp
  have form:
    \<open>fst (DoPost (sample_env (answer ''{"status":"ok","msg":"","data":"Affected"}''))
       ''send-email'' [] ''{"title": "hello", "receiver": "bob"}'' True False)
     = [\<lparr>Method = ''POST'', URL = ''http://localhost:8000/send-email?'',
         BasicAuth = Some (''client-id'', ''client-secret''),
         ContentType = Some ''application/x-www-form-urlencoded'',
         Body = Some (UrlencodedForm [(''title'', ''hello''), (''receiver'', ''bob'')])\<rparr>]\<close>
    by code_simp
  have not_a_map:
    \<open>DoPost (sample_env (answer ''{"status":"ok","msg":"","data":"Affected"}''))
       ''send-email'' [] ''["hello"]'' True False
     = ([], None, Some typeError)\<close>
    by code_simp
  have plain:
    \<open>fst (DoPost (sample_env (answer ''{"status":"ok","msg":"","data":"Affected"}''))
       ''add-role'' [(''id'', ''org1/editor'')] ''{"owner":"built-in","name":"editor"}'' False False)
     = [\<lparr>Method = ''POST'', URL = ''http://localhost:8000/add-role?id=org1/editor'',
         BasicAuth = Some (''client-id'', ''client-secret''),
         ContentType = Some ''text/plain;charset=UTF-8'',
         Body = Some (Bytes ''{"owner":"built-in","name":"editor"}'')\<rparr>]\<close>
    by code_simp
  from DoPost_body_encoding
         [where env = \<open>sample_env (answer ''{"status":"ok","msg":"","data":"Affected"}'')\<close>
            and action = "''upload-resource''" and queryMap = "[(''id'', ''built-in/logo.png'')]"
            and postBytes = "''PNG-bytes''"]
       upload form not_a_map plain
  show ?thesis by simp
qed


subsection \<open>The bytes that DoGetBytes returns\<close>




subsection \<open>The error of a response that is not ok\<close>

text \<open>
  Claim C1. For an envelope whose \<open>Status\<close> is not "ok", the pipeline returns no envelope
  and no data, and the error \<open>fmt.Errorf(response.Msg)\<close>. That call reads the message as
  a format (\<open>DoGetResponse_remote_error\<close>, \<open>DoPost_remote_error\<close>), so the text of the
  error is the message only when the message has no percent sign
  (\<open>doPrintf_no_percent\<close>). The run below has the message "usage at 100%": the text of
  the error differs from it, in \<open>DoGetResponse\<close>, \<open>DoGetBytes\<close> and \<open>DoPost\<close>.
\<close>

theorem remote_message_read_as_format:
  \<open>DoGetResponse (sample_env (answer ''{"status":"error","msg":"usage at 100%"}''))
       ''http://localhost:8000/get-user?id=built-in/alice''
     = ([\<lparr>Method = ''GET'', URL = ''http://localhost:8000/get-user?id=built-in/alice'',
          BasicAuth = Some (''client-id'', ''client-secret''), ContentType = None,
          Body = None\<rparr>],
        None, Some (ErrorString ''usage at 100%!(NOVERB)''))
   \<and> snd (DoGetBytes (sample_env (answer ''{"status":"error","msg":"usage at 100%"}''))
       ''http://localhost:8000/get-user?id=built-in/alice'')
     = ([], Some (ErrorString ''usage at 100%!(NOVERB)''))
   \<and> snd (DoPost (sample_env (answer ''{"status":"error","msg":"usage at 100%"}''))
       ''add-role'' [(''id'', ''org1/editor'')] ''{"owner":"built-in","name":"editor"}'' False False)
     = (None, Some (ErrorString ''usage at 100%!(NOVERB)''))
   \<and> Error (ErrorString ''usage at 100%!(NOVERB)'') \<noteq> ''usage at 100%''\<close>
  by code_simp


end
